theory Spec2Isabelle
  imports Main
begin

section \<open>Exceptions\<close>

text \<open>
  Every exception the module can raise, or let through from a collaborator, is a value.
  \<open>CollaboratorError\<close> stands for whatever a collaborator whose code lies outside
  this module (the Geometry object, the eigen-decomposition dispatcher, the component
  labelling) raises; the string is the exception's class name. \<open>ConfigurationError\<close>
  is the specification's name for a request that a collaborator refuses as invalid;
  nothing in the module itself raises it.
\<close>

datatype error =
    RuntimeError | ValueError | IndexError | NameError | AttributeError
  | ConfigurationError | CollaboratorError string

section \<open>Arrays and matrices\<close>

text \<open>
  A two-dimensional \<open>numpy.ndarray\<close>: its shape and its entries in row-major order
  (what \<open>.flat\<close> iterates over). The entry type \<open>'a\<close> is left open: the development
  only uses its \<open>0\<close>, \<open>+\<close> and \<open>*\<close> and no law about them, so that nothing
  depends on exact arithmetic.
\<close>

record 'a ndarray =
  shape0 :: nat
  shape1 :: nat
  flat :: "'a list"

definition wf_ndarray :: "'a ndarray \<Rightarrow> bool" where
  "wf_ndarray a = (length (flat a) = shape0 a * shape1 a)"

definition item :: "'a ndarray \<Rightarrow> nat \<Rightarrow> nat \<Rightarrow> 'a" where
  "item a i j = flat a ! (i * shape1 a + j)"

definition row :: "'a ndarray \<Rightarrow> nat \<Rightarrow> 'a list" where
  "row a i = map (\<lambda>j. item a i j) [0..<shape1 a]"

definition column :: "'a ndarray \<Rightarrow> nat \<Rightarrow> 'a list" where
  "column a j = map (\<lambda>i. item a i j) [0..<shape0 a]"

definition of_rows :: "nat \<Rightarrow> 'a list list \<Rightarrow> 'a ndarray" where
  "of_rows c rs = \<lparr>shape0 = length rs, shape1 = c, flat = concat rs\<rparr>"

text \<open>
  A \<open>scipy.sparse\<close> matrix: its storage layout, its shape and its stored entries as
  (row, column, data) triples, the view \<open>tocoo()\<close> gives. An entry of the matrix is
  the sum of the data stored at its position, and zero where nothing is stored.
\<close>

datatype layout = COO | CSR | CSC | DIA | BSR | LIL | DOK

record 'a spmatrix =
  sp_layout :: layout
  sp_shape0 :: nat
  sp_shape1 :: nat
  entries :: "(nat \<times> nat \<times> 'a) list"

datatype 'a matrix = Dense "'a ndarray" | Sparse "'a spmatrix"

text \<open>\<open>m.shape[0]\<close>: for an affinity matrix or a Laplacian, the number of samples.\<close>

definition n_samples :: "'a matrix \<Rightarrow> nat" where
  "n_samples m = (case m of Dense a \<Rightarrow> shape0 a | Sparse s \<Rightarrow> sp_shape0 s)"

definition sp_item :: "'a::{zero,plus} spmatrix \<Rightarrow> nat \<Rightarrow> nat \<Rightarrow> 'a" where
  "sp_item s i j = foldl (+) 0 (map (\<lambda>(r, c, d). d) (filter (\<lambda>(r, c, d). r = i \<and> c = j) (entries s)))"

text \<open>\<open>m.diagonal()\<close>: a one-dimensional array of length \<open>min(shape)\<close>.\<close>

definition diagonal :: "'a::{zero,plus} matrix \<Rightarrow> 'a list" where
  "diagonal m = (case m of
      Dense a \<Rightarrow> map (\<lambda>i. item a i i) [0..<min (shape0 a) (shape1 a)]
    | Sparse s \<Rightarrow> map (\<lambda>i. sp_item s i i) [0..<min (sp_shape0 s) (sp_shape1 s)])"

subsection \<open>Python slices\<close>

text \<open>
  The indices a slice \<open>[start:stop:step]\<close> selects from a sequence of length \<open>n\<close>,
  as CPython computes them: a negative bound counts from the end, a bound outside the
  sequence is clamped, an omitted bound is the end the step walks from or to.
  \<open>step\<close> is never zero here.
\<close>

definition adjust_index :: "int \<Rightarrow> int \<Rightarrow> int \<Rightarrow> int" where
  "adjust_index len step i =
     (if i < 0 then (if i + len < 0 then (if step < 0 then - 1 else 0) else i + len)
      else if len \<le> i then (if step < 0 then len - 1 else len)
      else i)"

definition slice_indices :: "nat \<Rightarrow> int option \<Rightarrow> int option \<Rightarrow> int \<Rightarrow> nat list" where
  "slice_indices n start stop step =
     (let len = int n;
          lo = (case start of None \<Rightarrow> (if step < 0 then len - 1 else 0)
                | Some s \<Rightarrow> adjust_index len step s);
          hi = (case stop of None \<Rightarrow> (if step < 0 then - 1 else len)
                | Some s \<Rightarrow> adjust_index len step s);
          cnt = (if step < 0 then (if hi < lo then (lo - hi - 1) div (- step) + 1 else 0)
                 else (if lo < hi then (hi - lo - 1) div step + 1 else 0))
      in map (\<lambda>t. nat (lo + int t * step)) [0..<nat cnt])"

text \<open>\<open>a[start:stop:step]\<close> on the first axis, and \<open>a.T\<close>.\<close>

definition getslice :: "'a ndarray \<Rightarrow> int option \<Rightarrow> int option \<Rightarrow> int \<Rightarrow> 'a ndarray" where
  "getslice a start stop step =
     of_rows (shape1 a) (map (row a) (slice_indices (shape0 a) start stop step))"

definition ndarray_T :: "'a ndarray \<Rightarrow> 'a ndarray" where
  "ndarray_T a = of_rows (shape0 a) (map (column a) [0..<shape1 a])"

text \<open>
  \<open>a * dd\<close> for a two-dimensional \<open>a\<close> and a one-dimensional \<open>dd\<close>, with numpy's
  broadcasting: the last axes must agree or one of them must be 1.
\<close>

definition mul_broadcast :: "'a::times ndarray \<Rightarrow> 'a list \<Rightarrow> error + 'a ndarray" where
  "mul_broadcast a dd =
     (let r = shape0 a; c = shape1 a; n = length dd in
      if c = n then Inr (of_rows c (map (\<lambda>i. map2 (*) (row a i) dd) [0..<r]))
      else if c = 1 then Inr (of_rows n (map (\<lambda>i. map (\<lambda>d. item a i 0 * d) dd) [0..<r]))
      else if n = 1 then Inr (of_rows c (map (\<lambda>i. map (\<lambda>x. x * dd ! 0) (row a i)) [0..<r]))
      else Inl ValueError)"

section \<open>Graph connectivity\<close>

text \<open>
  \<open>np.where(graph[connected_components] != 0)\<close>: the rows of the reached nodes are
  selected by the boolean mask, and the column index of every entry that differs from
  zero is returned, row after row.
\<close>

definition node_to_add :: "'a::zero ndarray \<Rightarrow> bool list \<Rightarrow> nat list" where
  "node_to_add graph connected_components =
     concat (map (\<lambda>i. filter (\<lambda>j. item graph i j \<noteq> 0) [0..<shape1 graph])
                 (filter (\<lambda>i. connected_components ! i) [0..<length connected_components]))"

text \<open>\<open>connected_components[idx] = True\<close> raises IndexError on an index out of range.\<close>

definition set_true :: "bool list \<Rightarrow> nat list \<Rightarrow> error + bool list" where
  "set_true connected_components idx =
     (if list_all (\<lambda>j. j < length connected_components) idx
      then Inr (fold (\<lambda>j a. a[j := True]) idx connected_components)
      else Inl IndexError)"

definition count_true :: "bool list \<Rightarrow> nat" where
  "count_true connected_components = length (filter (\<lambda>b. b) connected_components)"

text \<open>
  The loop \<open>for i in range(n_node)\<close> of \<open>_graph_connected_component\<close>; the first
  argument is the number of iterations left.
\<close>

fun cc_loop :: "nat \<Rightarrow> 'a::zero ndarray \<Rightarrow> bool list \<Rightarrow> error + bool list" where
  "cc_loop 0 graph connected_components = Inr connected_components"
| "cc_loop (Suc i) graph connected_components =
     (let last_num_component = count_true connected_components in
      case set_true connected_components (node_to_add graph connected_components) of
        Inl e \<Rightarrow> Inl e
      | Inr cc' \<Rightarrow>
          if count_true cc' \<le> last_num_component then Inr cc'
          else cc_loop i graph cc')"

definition graph_connected_component :: "'a::zero ndarray \<Rightarrow> nat \<Rightarrow> error + bool list" where
  "graph_connected_component graph node_id =
     (let n_node = shape0 graph in
      if node_id < n_node
      then cc_loop n_node graph ((replicate n_node False)[node_id := True])
      else Inl IndexError)"

text \<open>
  \<open>_graph_is_connected\<close>. The labelling of the components of a sparse graph,
  \<open>connected_components\<close>, is a library routine: it is a parameter, giving the number
  of components and the labels.
\<close>

definition graph_is_connected ::
  "('a spmatrix \<Rightarrow> error + nat \<times> nat list) \<Rightarrow> 'a::zero matrix \<Rightarrow> error + bool" where
  "graph_is_connected connected_components graph =
     (case graph of
        Sparse g \<Rightarrow>
          (case connected_components g of
             Inl e \<Rightarrow> Inl e
           | Inr (n_connected_components, labels) \<Rightarrow> Inr (n_connected_components = 1))
      | Dense g \<Rightarrow>
          (case graph_connected_component g 0 of
             Inl e \<Rightarrow> Inl e
           | Inr cc \<Rightarrow> Inr (count_true cc = shape0 g)))"

text \<open>
  What the connectivity claim is measured against: the edges of a dense graph are its
  entries that differ from zero, and the graph is connected when every node is reached
  from every node along edges.
\<close>

definition edges :: "'a::zero ndarray \<Rightarrow> (nat \<times> nat) set" where
  "edges graph = {(i, j). i < shape0 graph \<and> j < shape1 graph \<and> item graph i j \<noteq> 0}"

definition symmetric_graph :: "'a::zero ndarray \<Rightarrow> bool" where
  "symmetric_graph graph =
     list_all (\<lambda>i. list_all (\<lambda>j. (item graph i j \<noteq> 0) = (item graph j i \<noteq> 0))
                               [0..<shape0 graph]) [0..<shape0 graph]"

definition connected_graph :: "'a::zero ndarray \<Rightarrow> bool" where
  "connected_graph graph =
     ({(i, j). i < shape0 graph \<and> j < shape0 graph} \<subseteq> (edges graph)\<^sup>*)"

text \<open>The nodes a boolean array marks.\<close>

definition reached :: "bool list \<Rightarrow> nat set" where
  "reached connected_components =
     {i. i < length connected_components \<and> connected_components ! i}"

section \<open>Conditioning the Laplacian\<close>

text \<open>
  \<open>_set_diag\<close> mutates its argument, so matrices live in a store: a reference holds an
  object, and a new object takes the next free reference.
\<close>

type_synonym ref = nat

record 'a heap =
  obj :: "ref \<Rightarrow> 'a matrix"
  next_ref :: ref

definition alloc :: "'a heap \<Rightarrow> 'a matrix \<Rightarrow> 'a heap \<times> ref" where
  "alloc h m = (h\<lparr>obj := (obj h)(next_ref h := m), next_ref := Suc (next_ref h)\<rparr>, next_ref h)"

text \<open>\<open>xs[::step] = value\<close> on a flat array.\<close>

definition assign_stride :: "'a list \<Rightarrow> nat \<Rightarrow> 'a \<Rightarrow> 'a list" where
  "assign_stride xs step v =
     fold (\<lambda>i a. a[i := v]) (slice_indices (length xs) None None (int step)) xs"

text \<open>
  \<open>tocoo()\<close> gives the matrix itself when it is in COO layout already and a new object
  otherwise; \<open>todia()\<close> and \<open>tocsr()\<close> give a new object. A conversion keeps the matrix
  that the stored triples stand for, so the model keeps the triples and changes the tag.
\<close>

definition tocoo :: "'a heap \<Rightarrow> ref \<Rightarrow> 'a spmatrix \<Rightarrow> 'a heap \<times> ref" where
  "tocoo h r s = (if sp_layout s = COO then (h, r) else alloc h (Sparse (s\<lparr>sp_layout := COO\<rparr>)))"

definition n_diags :: "'a spmatrix \<Rightarrow> nat" where
  "n_diags s = length (remdups (map (\<lambda>(r, c, d). int r - int c) (entries s)))"

definition set_diag :: "'a heap \<Rightarrow> ref \<Rightarrow> 'a \<Rightarrow> 'a heap \<times> ref" where
  "set_diag h laplacian v =
     (case obj h laplacian of
        Dense a \<Rightarrow>
          (let n_nodes = shape0 a in
           (h\<lparr>obj := (obj h)(laplacian := Dense (a\<lparr>flat := assign_stride (flat a) (n_nodes + 1) v\<rparr>))\<rparr>,
            laplacian))
      | Sparse s \<Rightarrow>
          (let (h1, coo) = tocoo h laplacian s;
               s1 = s\<lparr>sp_layout := COO,
                      entries := map (\<lambda>(r, c, d). (r, c, if r = c then v else d)) (entries s)\<rparr>;
               h2 = h1\<lparr>obj := (obj h1)(coo := Sparse s1)\<rparr>
           in if n_diags s1 \<le> 7 then alloc h2 (Sparse (s1\<lparr>sp_layout := DIA\<rparr>))
              else alloc h2 (Sparse (s1\<lparr>sp_layout := CSR\<rparr>))))"

text \<open>The entry of a matrix at a position, whatever its layout.\<close>

definition matrix_item :: "'a::{zero,plus} matrix \<Rightarrow> nat \<Rightarrow> nat \<Rightarrow> 'a" where
  "matrix_item m i j = (case m of Dense a \<Rightarrow> item a i j | Sparse s \<Rightarrow> sp_item s i j)"

section \<open>The embedding pipeline\<close>

text \<open>
  \<open>check_random_state\<close> is a library routine: \<open>None\<close> gives the global generator,
  an integer a new generator seeded with it (the seed must fit 32 unsigned bits), a
  generator is given back as it is, anything else raises ValueError.
\<close>

datatype random_state = GlobalRandomState | RandomState nat

datatype seed = SeedNone | SeedInt int | SeedRandomState random_state | SeedOther

definition check_random_state :: "seed \<Rightarrow> error + random_state" where
  "check_random_state s =
     (case s of
        SeedNone \<Rightarrow> Inr GlobalRandomState
      | SeedInt n \<Rightarrow> (if 0 \<le> n \<and> n < 2 ^ 32 then Inr (RandomState (nat n)) else Inl ValueError)
      | SeedRandomState r \<Rightarrow> Inr r
      | SeedOther \<Rightarrow> Inl ValueError)"

text \<open>
  The Geometry class is not part of this module. An object of it is known here by what
  its two accessors give: a matrix, or the exception they raise.
\<close>

record 'a geometry =
  get_affinity_matrix :: "error + 'a matrix"
  get_laplacian_matrix :: "error + 'a matrix"

datatype 'a pyobject = GeometryObj "'a geometry" | OtherObj

text \<open>
  What a call leaves behind besides its result, in order: the warnings it emitted, the
  calls it made to the eigen-decomposition dispatcher with their arguments, and the
  Geometry objects it asked for (from which \<open>X\<close>, and with which \<open>is_affinity\<close>
  argument, if any).
\<close>

datatype 'a event =
    Warning string
  | EigenCall "'a matrix" int "string option" random_state 'a bool
  | GeometryInit "'a matrix" "bool option"

fun requested_eigenpairs :: "'a event list \<Rightarrow> int list" where
  "requested_eigenpairs [] = []"
| "requested_eigenpairs (EigenCall l k s r t d # es) = k # requested_eigenpairs es"
| "requested_eigenpairs (e # es) = requested_eigenpairs es"

fun warnings_of :: "'a event list \<Rightarrow> string list" where
  "warnings_of [] = []"
| "warnings_of (Warning w # es) = w # warnings_of es"
| "warnings_of (e # es) = warnings_of es"

definition not_connected_warning :: string where
  "not_connected_warning =
     ''Graph is not fully connected, spectral embedding may not work as expected.''"

text \<open>
  \<open>spectral_embedding\<close>. Its first two arguments are the collaborators:
  the library's component labelling and \<open>eigen_decomposition\<close>, a function of this
  project whose code is not part of the module; it gives the eigenvalues and the
  array of eigenvectors (one per column), or raises.
\<close>

definition spectral_embedding ::
  "('a spmatrix \<Rightarrow> error + nat \<times> nat list) \<Rightarrow>
   ('a matrix \<Rightarrow> int \<Rightarrow> string option \<Rightarrow> random_state \<Rightarrow> 'a \<Rightarrow> bool \<Rightarrow> error + 'a list \<times> 'a ndarray) \<Rightarrow>
   'a::{zero,plus,times} pyobject \<Rightarrow> int \<Rightarrow> string option \<Rightarrow> seed \<Rightarrow> 'a \<Rightarrow> bool \<Rightarrow>
   'a event list \<times> (error + 'a ndarray)" where
  "spectral_embedding connected_components eigen_decomposition Geometry n_components
       eigen_solver random_state eigen_tol drop_first =
     (case check_random_state random_state of
        Inl e \<Rightarrow> ([], Inl e)
      | Inr rs \<Rightarrow>
     (case Geometry of
        OtherObj \<Rightarrow> ([], Inl RuntimeError)
      | GeometryObj G \<Rightarrow>
     (case get_affinity_matrix G of
        Inl e \<Rightarrow> ([], Inl e)
      | Inr affinity_matrix \<Rightarrow>
     (case graph_is_connected connected_components affinity_matrix of
        Inl e \<Rightarrow> ([], Inl e)
      | Inr is_connected \<Rightarrow>
     (let warned = (if is_connected then [] else [Warning not_connected_warning]) in
      case get_laplacian_matrix G of
        Inl e \<Rightarrow> (warned, Inl e)
      | Inr laplacian \<Rightarrow>
     (let dd = diagonal laplacian;
          called = warned @ [EigenCall laplacian n_components eigen_solver rs eigen_tol drop_first] in
      case eigen_decomposition laplacian n_components eigen_solver rs eigen_tol drop_first of
        Inl e \<Rightarrow> (called, Inl e)
      | Inr (lambdas, diffusion_map) \<Rightarrow>
     (case mul_broadcast (getslice (ndarray_T diffusion_map) (Some n_components) None (- 1)) dd of
        Inl e \<Rightarrow> (called, Inl e)
      | Inr embedding \<Rightarrow>
          if drop_first
          then (called, Inr (ndarray_T (getslice embedding (Some 1) (Some n_components) 1)))
          else (called, Inr (ndarray_T (getslice embedding None (Some n_components) 1))))))))))"

text \<open>
  What the rescaling claim is measured against: every eigenvector the dispatcher gave
  (every column of \<open>diffusion_map\<close>) multiplied entry by entry with the same vector
  \<open>dd\<close>, one eigenvector per row.
\<close>

definition rescaled_eigenvectors :: "'a::times ndarray \<Rightarrow> 'a list \<Rightarrow> 'a ndarray" where
  "rescaled_eigenvectors diffusion_map dd =
     of_rows (shape0 diffusion_map)
       (map (\<lambda>j. map2 (*) (column diffusion_map j) dd) [0..<shape1 diffusion_map])"

section \<open>The estimator\<close>

record 'a SpectralEmbedding =
  self_n_components :: int
  self_is_affinity :: bool
  self_radius :: "'a option"
  self_random_state :: seed
  self_eigen_solver :: "string option"
  self_use_flann :: bool
  self_path_to_flann :: "string option"
  self_cpp_distances :: bool
  self_embedding :: "'a ndarray option"

text \<open>
  The names bound at the top level of the module, by its imports and its definitions.
  A name read in a function body that the function does not assign is looked up here
  and then among the builtins, which have no \<open>is_affinity\<close>; a name found in neither
  raises NameError. Every name bound here is a module, a function or a class, which are
  true in a condition.
\<close>

definition module_globals :: "string list" where
  "module_globals =
     [''warnings'', ''np'', ''geom'', ''eigen_decomposition'', ''sparse'', ''BaseEstimator'',
      ''TransformerMixin'', ''check_random_state'', ''connected_components'',
      ''_graph_connected_component'', ''_graph_is_connected'', ''_set_diag'',
      ''spectral_embedding'', ''SpectralEmbedding'']"

definition load_global :: "string \<Rightarrow> error + bool" where
  "load_global name = (if name \<in> set module_globals then Inr True else Inl NameError)"

text \<open>
  \<open>fit\<close> and \<open>fit_transform\<close>: the estimator after the call, what the call left behind,
  and its result or the exception. The constructor of Geometry is a parameter: it
  takes \<open>X\<close>, the radius, \<open>is_affinity\<close> (\<open>None\<close> when the call does not pass it)
  and the three backend options.
\<close>

definition fit ::
  "('a spmatrix \<Rightarrow> error + nat \<times> nat list) \<Rightarrow>
   ('a matrix \<Rightarrow> int \<Rightarrow> string option \<Rightarrow> random_state \<Rightarrow> 'a \<Rightarrow> bool \<Rightarrow> error + 'a list \<times> 'a ndarray) \<Rightarrow>
   ('a matrix \<Rightarrow> 'a option \<Rightarrow> bool option \<Rightarrow> bool \<Rightarrow> string option \<Rightarrow> bool \<Rightarrow> error + 'a geometry) \<Rightarrow>
   'a::{zero,plus,times} SpectralEmbedding \<Rightarrow> 'a matrix \<Rightarrow>
   'a SpectralEmbedding \<times> 'a event list \<times> (error + unit)" where
  "fit connected_components eigen_decomposition Geometry_init self X =
     (case check_random_state (self_random_state self) of
        Inl e \<Rightarrow> (self, [], Inl e)
      | Inr random_state \<Rightarrow>
     (case load_global ''is_affinity'' of
        Inl e \<Rightarrow> (self, [], Inl e)
      | Inr is_affinity \<Rightarrow>
     (let passed = (if is_affinity then Some True else None) in
      case Geometry_init X (self_radius self) passed (self_use_flann self)
             (self_path_to_flann self) (self_cpp_distances self) of
        Inl e \<Rightarrow> (self, [GeometryInit X passed], Inl e)
      | Inr Geometry \<Rightarrow>
     (case spectral_embedding connected_components eigen_decomposition (GeometryObj Geometry)
             (self_n_components self) (self_eigen_solver self) (SeedRandomState random_state)
             0 True of
        (log, Inl e) \<Rightarrow> (self, GeometryInit X passed # log, Inl e)
      | (log, Inr embedding) \<Rightarrow>
          (self\<lparr>self_embedding := Some embedding\<rparr>, GeometryInit X passed # log, Inr ())))))"

definition fit_transform ::
  "('a spmatrix \<Rightarrow> error + nat \<times> nat list) \<Rightarrow>
   ('a matrix \<Rightarrow> int \<Rightarrow> string option \<Rightarrow> random_state \<Rightarrow> 'a \<Rightarrow> bool \<Rightarrow> error + 'a list \<times> 'a ndarray) \<Rightarrow>
   ('a matrix \<Rightarrow> 'a option \<Rightarrow> bool option \<Rightarrow> bool \<Rightarrow> string option \<Rightarrow> bool \<Rightarrow> error + 'a geometry) \<Rightarrow>
   'a::{zero,plus,times} SpectralEmbedding \<Rightarrow> 'a matrix \<Rightarrow>
   'a SpectralEmbedding \<times> 'a event list \<times> (error + 'a ndarray)" where
  "fit_transform connected_components eigen_decomposition Geometry_init self X =
     (case fit connected_components eigen_decomposition Geometry_init self X of
        (self', log, Inl e) \<Rightarrow> (self', log, Inl e)
      | (self', log, Inr u) \<Rightarrow>
          (case self_embedding self' of
             None \<Rightarrow> (self', log, Inl AttributeError)
           | Some embedding \<Rightarrow> (self', log, Inr embedding)))"

section \<open>The eigen-decomposition dispatcher\<close>

text \<open>
  Modelled from the spec: \<open>eigen_decomposition\<close> of \<open>Mmani.embedding.eigendecomp\<close>, the
  dispatcher that \<open>spectral_embedding\<close> calls and whose code is not part of the module.
  The specification (its dispatcher contract and its error taxonomy) makes a request for
  \<open>k \<ge> N\<close> eigenpairs of the Laplacian of \<open>N\<close> samples a ConfigurationError, not
  retried and surfaced to the caller; \<open>spectral_embedding\<close> has no such check, so it is
  the dispatcher's. Every other request goes to the numerical solver, which is the
  first argument: what it computes is not modelled.
\<close>

definition eigen_decomposition ::
  "('a matrix \<Rightarrow> int \<Rightarrow> string option \<Rightarrow> random_state \<Rightarrow> 'a \<Rightarrow> bool \<Rightarrow> error + 'a list \<times> 'a ndarray) \<Rightarrow>
   'a matrix \<Rightarrow> int \<Rightarrow> string option \<Rightarrow> random_state \<Rightarrow> 'a \<Rightarrow> bool \<Rightarrow> error + 'a list \<times> 'a ndarray" where
  "eigen_decomposition solve laplacian n_components eigen_solver rs eigen_tol drop_first =
     (if int (n_samples laplacian) \<le> n_components then Inl ConfigurationError
      else solve laplacian n_components eigen_solver rs eigen_tol drop_first)"

section \<open>Example inputs\<close>

text \<open>
  The path graph on three nodes, 0 - 1 - 2, with integer entries: its affinity matrix,
  its Laplacian (degrees 1, 2, 1 on the diagonal) and the eigenpairs of the Laplacian,
  smallest eigenvalue first (0, 1, 3), one eigenvector per column: the constant vector,
  then (1, 0, -1), then (1, -2, 1).
\<close>

definition path3_affinity :: "int ndarray" where
  "path3_affinity = \<lparr>shape0 = 3, shape1 = 3, flat = [0, 1, 0, 1, 0, 1, 0, 1, 0]\<rparr>"

definition path3_laplacian :: "int ndarray" where
  "path3_laplacian = \<lparr>shape0 = 3, shape1 = 3, flat = [1, - 1, 0, - 1, 2, - 1, 0, - 1, 1]\<rparr>"

definition path3_geometry :: "int geometry" where
  "path3_geometry =
     \<lparr>get_affinity_matrix = Inr (Dense path3_affinity),
      get_laplacian_matrix = Inr (Dense path3_laplacian)\<rparr>"

definition path3_lambdas :: "int list" where
  "path3_lambdas = [0, 1, 3]"

definition path3_eigenvectors :: "int ndarray" where
  "path3_eigenvectors = \<lparr>shape0 = 3, shape1 = 3, flat = [1, 1, 1, 1, 0, - 2, 1, - 1, 1]\<rparr>"

text \<open>
  An exact dispatcher for a Laplacian whose eigenpairs are known: it gives the first
  \<open>n_components\<close> of them, one more when \<open>drop_first\<close> is set. A request it cannot
  meet exactly (a negative \<open>n_components\<close>, one that is not below the number of samples,
  or more eigenpairs than are known) is refused as a ConfigurationError. And a
  dispatcher whose solver does not converge.
\<close>

definition exact_eigen_decomposition ::
  "'a list \<Rightarrow> 'a ndarray \<Rightarrow>
   'a matrix \<Rightarrow> int \<Rightarrow> string option \<Rightarrow> random_state \<Rightarrow> 'a \<Rightarrow> bool \<Rightarrow> error + 'a list \<times> 'a ndarray" where
  "exact_eigen_decomposition lambdas eigenvectors laplacian n_components eigen_solver rs
       eigen_tol drop_first =
     (let m = (if drop_first then n_components + 1 else n_components) in
      if n_components < 0 \<or> int (n_samples laplacian) \<le> n_components
         \<or> int (shape1 eigenvectors) < m
      then Inl ConfigurationError
      else Inr (take (nat m) lambdas,
                ndarray_T (getslice (ndarray_T eigenvectors) None (Some m) 1)))"

definition path3_eigen_decomposition ::
  "int matrix \<Rightarrow> int \<Rightarrow> string option \<Rightarrow> random_state \<Rightarrow> int \<Rightarrow> bool \<Rightarrow> error + int list \<times> int ndarray" where
  "path3_eigen_decomposition = exact_eigen_decomposition path3_lambdas path3_eigenvectors"

definition failing_eigen_decomposition ::
  "int matrix \<Rightarrow> int \<Rightarrow> string option \<Rightarrow> random_state \<Rightarrow> int \<Rightarrow> bool \<Rightarrow> error + int list \<times> int ndarray" where
  "failing_eigen_decomposition laplacian n_components eigen_solver rs eigen_tol drop_first =
     Inl (CollaboratorError ''ArpackNoConvergence'')"

text \<open>
  Three nodes, 0 - 1 joined and 2 alone, as dense matrices: the graph is not connected;
  the eigenvalues of its Laplacian are 0, 0, 2.
\<close>

definition split3_affinity :: "int ndarray" where
  "split3_affinity = \<lparr>shape0 = 3, shape1 = 3, flat = [0, 1, 0, 1, 0, 0, 0, 0, 0]\<rparr>"

definition split3_laplacian :: "int ndarray" where
  "split3_laplacian = \<lparr>shape0 = 3, shape1 = 3, flat = [1, - 1, 0, - 1, 1, 0, 0, 0, 0]\<rparr>"

definition split3_geometry :: "int geometry" where
  "split3_geometry =
     \<lparr>get_affinity_matrix = Inr (Dense split3_affinity),
      get_laplacian_matrix = Inr (Dense split3_laplacian)\<rparr>"

definition split3_eigen_decomposition ::
  "int matrix \<Rightarrow> int \<Rightarrow> string option \<Rightarrow> random_state \<Rightarrow> int \<Rightarrow> bool \<Rightarrow> error + int list \<times> int ndarray" where
  "split3_eigen_decomposition =
     exact_eigen_decomposition [0, 0, 2]
       \<lparr>shape0 = 3, shape1 = 3, flat = [1, 0, 1, 1, 0, - 1, 0, 1, 0]\<rparr>"

text \<open>The labelling of sparse graphs is not reached on dense examples.\<close>

definition no_connected_components :: "int spmatrix \<Rightarrow> error + nat \<times> nat list" where
  "no_connected_components g = Inl (CollaboratorError ''connected_components'')"

text \<open>
  Two nodes joined by an edge and a third, isolated one: the sparse Laplacian stores
  nothing in the row and the column of the isolated node.
\<close>

definition isolated_laplacian :: "int spmatrix" where
  "isolated_laplacian =
     \<lparr>sp_layout = CSR, sp_shape0 = 3, sp_shape1 = 3,
      entries = [(0, 0, 1), (0, 1, - 1), (1, 0, - 1), (1, 1, 1)]\<rparr>"

definition isolated_heap :: "int heap" where
  "isolated_heap = \<lparr>obj = (\<lambda>r. Sparse isolated_laplacian), next_ref = 1\<rparr>"

text \<open>A dense Laplacian in the store, and a sparse matrix with eight diagonals.\<close>

definition path3_heap :: "int heap" where
  "path3_heap = \<lparr>obj = (\<lambda>r. Dense path3_laplacian), next_ref = 1\<rparr>"

definition wide_sparse :: "int spmatrix" where
  "wide_sparse =
     \<lparr>sp_layout = COO, sp_shape0 = 8, sp_shape1 = 8,
      entries = [(0, 0, 7), (0, 1, - 1), (0, 2, - 1), (0, 3, - 1), (0, 4, - 1), (0, 5, - 1),
                 (0, 6, - 1), (0, 7, - 1)]\<rparr>"

definition wide_heap :: "int heap" where
  "wide_heap = \<lparr>obj = (\<lambda>r. Sparse wide_sparse), next_ref = 1\<rparr>"

definition isolated_affinity :: "int spmatrix" where
  "isolated_affinity =
     \<lparr>sp_layout = CSR, sp_shape0 = 3, sp_shape1 = 3, entries = [(0, 1, 1), (1, 0, 1)]\<rparr>"

definition isolated_connected_components :: "int spmatrix \<Rightarrow> error + nat \<times> nat list" where
  "isolated_connected_components g = Inr (2, [0, 0, 1])"

text \<open>A clique on three nodes, and two cliques of two nodes with no edge between them.\<close>

definition clique3 :: "int ndarray" where
  "clique3 = \<lparr>shape0 = 3, shape1 = 3, flat = [0, 1, 1, 1, 0, 1, 1, 1, 0]\<rparr>"

definition two_cliques :: "int ndarray" where
  "two_cliques =
     \<lparr>shape0 = 4, shape1 = 4, flat = [0, 1, 0, 0, 1, 0, 0, 0, 0, 0, 0, 1, 0, 0, 1, 0]\<rparr>"

text \<open>The empty dense graph, and the estimator with its default parameters.\<close>

definition empty_graph :: "int ndarray" where
  "empty_graph = \<lparr>shape0 = 0, shape1 = 0, flat = []\<rparr>"

definition default_estimator :: "int SpectralEmbedding" where
  "default_estimator =
     \<lparr>self_n_components = 2, self_is_affinity = False, self_radius = None,
      self_random_state = SeedNone, self_eigen_solver = None, self_use_flann = False,
      self_path_to_flann = None, self_cpp_distances = False, self_embedding = None\<rparr>"

definition path3_Geometry_init ::
  "int matrix \<Rightarrow> int option \<Rightarrow> bool option \<Rightarrow> bool \<Rightarrow> string option \<Rightarrow> bool \<Rightarrow> error + int geometry" where
  "path3_Geometry_init X radius is_affinity use_flann path_to_flann cpp_distances =
     Inr path3_geometry"

section \<open>Connectivity: the expansion from node 0 finds the component of node 0\<close>

lemma reached_bound: "reached cc \<subseteq> {..<length cc}"
  by (auto simp: reached_def)

lemma finite_reached: "finite (reached cc)"
  using reached_bound finite_subset by blast

lemma count_true_card: "count_true cc = card (reached cc)"
  unfolding count_true_def reached_def by (simp add: length_filter_conv_card)

lemma set_node_to_add:
  "set (node_to_add g cc) = {j. j < shape1 g \<and> (\<exists>i. i < length cc \<and> cc ! i \<and> item g i j \<noteq> 0)}"
  by (auto simp: node_to_add_def)

lemma fold_set_true_length: "length (fold (\<lambda>j a. a[j := True]) idx cc) = length cc"
  by (induction idx arbitrary: cc) auto

lemma fold_set_true_nth:
  "k < length cc \<Longrightarrow> fold (\<lambda>j a. a[j := True]) idx cc ! k = (cc ! k \<or> k \<in> set idx)"
proof (induction idx arbitrary: cc)
  case Nil
  then show ?case by simp
next
  case (Cons a idx)
  have "cc[a := True] ! k = (cc ! k \<or> k = a)"
    using Cons.prems by (cases "a = k") auto
  with Cons show ?case by auto
qed

lemma reached_fold:
  "reached (fold (\<lambda>j a. a[j := True]) idx cc) = reached cc \<union> (set idx \<inter> {..<length cc})"
  by (auto simp: reached_def fold_set_true_length fold_set_true_nth)

lemma set_true_square:
  assumes "shape0 g = length cc" "shape1 g = length cc"
  shows "\<exists>cc'. set_true cc (node_to_add g cc) = Inr cc' \<and> length cc' = length cc
            \<and> reached cc' = reached cc \<union> edges g `` reached cc"
proof -
  let ?idx = "node_to_add g cc"
  have bound: "list_all (\<lambda>j. j < length cc) ?idx"
    using assms by (auto simp: list_all_iff set_node_to_add)
  have "set ?idx \<inter> {..<length cc} = edges g `` reached cc"
    using assms by (auto simp: set_node_to_add edges_def reached_def)
  then show ?thesis
    using bound by (simp add: set_true_def fold_set_true_length reached_fold)
qed

lemma closed_reach:
  assumes "v \<in> S" "E `` S \<subseteq> S"
  shows "E\<^sup>* `` {v} \<subseteq> S"
proof
  fix w assume "w \<in> E\<^sup>* `` {v}"
  then have "(v, w) \<in> E\<^sup>*" by simp
  then show "w \<in> S"
    using assms by (induction rule: rtrancl_induct) auto
qed

lemma cc_loop_reach:
  assumes "shape0 g = n" "shape1 g = n"
  shows "length cc = n \<Longrightarrow> v \<in> reached cc \<Longrightarrow> reached cc \<subseteq> (edges g)\<^sup>* `` {v}
       \<Longrightarrow> n < card (reached cc) + fuel
       \<Longrightarrow> \<exists>cc'. cc_loop fuel g cc = Inr cc' \<and> length cc' = n \<and> reached cc' = (edges g)\<^sup>* `` {v}"
proof (induction fuel arbitrary: cc)
  case 0
  have "card (reached cc) \<le> card {..<length cc}"
    by (rule card_mono) (simp_all add: reached_bound)
  with 0 show ?case by simp
next
  case (Suc fuel)
  from set_true_square[of g cc] assms Suc.prems(1)
  obtain cc' where st: "set_true cc (node_to_add g cc) = Inr cc'"
    and len: "length cc' = n"
    and re: "reached cc' = reached cc \<union> edges g `` reached cc" by auto
  have sub: "reached cc' \<subseteq> (edges g)\<^sup>* `` {v}"
    using Suc.prems(3) re by (auto intro: rtrancl_into_rtrancl)
  show ?case
  proof (cases "count_true cc' \<le> count_true cc")
    case True
    have "reached cc \<subseteq> reached cc'" using re by blast
    moreover have "card (reached cc') \<le> card (reached cc)"
      using True by (simp add: count_true_card)
    ultimately have "reached cc = reached cc'"
      using finite_reached card_seteq by blast
    then have "edges g `` reached cc' \<subseteq> reached cc'" using re by blast
    moreover have "v \<in> reached cc'" using Suc.prems(2) re by blast
    ultimately have "(edges g)\<^sup>* `` {v} \<subseteq> reached cc'" by (rule closed_reach[rotated])
    with sub have "reached cc' = (edges g)\<^sup>* `` {v}" by blast
    with True st len show ?thesis by simp
  next
    case False
    then have "card (reached cc) < card (reached cc')" by (simp add: count_true_card)
    with Suc.prems(4) have "n < card (reached cc') + fuel" by simp
    moreover have "v \<in> reached cc'" using Suc.prems(2) re by blast
    ultimately obtain cc'' where "cc_loop fuel g cc' = Inr cc''" "length cc'' = n"
      "reached cc'' = (edges g)\<^sup>* `` {v}"
      using Suc.IH[OF len _ sub] by blast
    with False st show ?thesis by simp
  qed
qed

lemma reached_start: "v < n \<Longrightarrow> reached ((replicate n False)[v := True]) = {v}"
  by (auto simp: reached_def nth_list_update)

lemma graph_connected_component_reach:
  assumes "shape1 g = shape0 g" "v < shape0 g"
  shows "\<exists>cc. graph_connected_component g v = Inr cc \<and> length cc = shape0 g
            \<and> reached cc = (edges g)\<^sup>* `` {v}"
proof -
  let ?cc = "(replicate (shape0 g) False)[v := True]"
  have "\<exists>cc'. cc_loop (shape0 g) g ?cc = Inr cc' \<and> length cc' = shape0 g
          \<and> reached cc' = (edges g)\<^sup>* `` {v}"
    using assms by (intro cc_loop_reach) (simp_all add: reached_start)
  then show ?thesis using assms by (simp add: graph_connected_component_def Let_def)
qed

lemma count_true_all: "count_true cc = length cc \<longleftrightarrow> reached cc = {..<length cc}"
proof
  assume "count_true cc = length cc"
  then have "card (reached cc) = card {..<length cc}" by (simp add: count_true_card)
  then show "reached cc = {..<length cc}"
    using reached_bound by (intro card_subset_eq) auto
next
  assume "reached cc = {..<length cc}"
  then show "count_true cc = length cc" by (simp add: count_true_card)
qed

lemma symmetric_graph_sym:
  assumes "symmetric_graph g" "shape1 g = shape0 g"
  shows "sym (edges g)"
  using assms by (auto simp: symmetric_graph_def edges_def list_all_iff sym_def)

lemma edges_bound: "(i, j) \<in> (edges g)\<^sup>* \<Longrightarrow> shape1 g = shape0 g \<Longrightarrow> i < shape0 g \<Longrightarrow> j < shape0 g"
  by (induction rule: rtrancl_induct) (auto simp: edges_def)

lemma connected_graph_reach:
  assumes "symmetric_graph g" "shape1 g = shape0 g" "0 < shape0 g"
  shows "connected_graph g \<longleftrightarrow> (edges g)\<^sup>* `` {0} = {..<shape0 g}"
proof
  assume c: "connected_graph g"
  show "(edges g)\<^sup>* `` {0} = {..<shape0 g}"
  proof
    show "(edges g)\<^sup>* `` {0} \<subseteq> {..<shape0 g}"
      using edges_bound[OF _ assms(2)] assms(3) by auto
    show "{..<shape0 g} \<subseteq> (edges g)\<^sup>* `` {0}"
      using c assms(3) by (auto simp: connected_graph_def)
  qed
next
  assume r: "(edges g)\<^sup>* `` {0} = {..<shape0 g}"
  have s: "sym ((edges g)\<^sup>*)"
    using symmetric_graph_sym[OF assms(1,2)] by (rule sym_rtrancl)
  show "connected_graph g"
    unfolding connected_graph_def
  proof clarify
    fix i j assume "i < shape0 g" "j < shape0 g"
    with r have "(0, i) \<in> (edges g)\<^sup>*" "(0, j) \<in> (edges g)\<^sup>*" by auto
    moreover from this(1) s have "(i, 0) \<in> (edges g)\<^sup>*" by (meson symD)
    ultimately show "(i, j) \<in> (edges g)\<^sup>*" by (meson rtrancl_trans)
  qed
qed

text \<open>
  Claim C5, as amended. For a square dense affinity matrix with at least one node whose
  non-zero structure is symmetric, \<open>_graph_is_connected\<close> returns, and returns True
  exactly when every node is reached from every node along non-zero entries: the
  expansion from node 0 stops within \<open>N\<close> iterations at the set of nodes reachable from
  node 0. For a sparse matrix it returns whether the number of components that the
  library's labelling counts is 1.
\<close>

theorem graph_is_connected_correct:
  "(shape1 g = shape0 g \<and> 0 < shape0 g \<and> symmetric_graph g
      \<longrightarrow> graph_is_connected cc (Dense g) = Inr (connected_graph g))
   \<and> (cc s = Inr (n, labels) \<longrightarrow> graph_is_connected cc (Sparse s) = Inr (n = 1))"
proof (intro conjI impI)
  assume a: "shape1 g = shape0 g \<and> 0 < shape0 g \<and> symmetric_graph g"
  then obtain c where c: "graph_connected_component g 0 = Inr c" "length c = shape0 g"
      "reached c = (edges g)\<^sup>* `` {0}"
    using graph_connected_component_reach[of g 0] by auto
  have "count_true c = shape0 g \<longleftrightarrow> connected_graph g"
    using a c count_true_all[of c] connected_graph_reach[of g] by simp
  with c show "graph_is_connected cc (Dense g) = Inr (connected_graph g)"
    by (simp add: graph_is_connected_def)
next
  assume "cc s = Inr (n, labels)"
  then show "graph_is_connected cc (Sparse s) = Inr (n = 1)"
    by (simp add: graph_is_connected_def)
qed

theorem graph_is_connected_correct_witness:
  "shape1 path3_affinity = shape0 path3_affinity \<and> 0 < shape0 path3_affinity
   \<and> symmetric_graph path3_affinity
   \<and> graph_is_connected isolated_connected_components (Dense path3_affinity)
       = Inr (connected_graph path3_affinity)
   \<and> isolated_connected_components isolated_affinity = Inr (2, [0, 0, 1])
   \<and> graph_is_connected isolated_connected_components (Sparse isolated_affinity) = Inr (2 = (1::nat))"
proof -
  have sq: "shape1 path3_affinity = shape0 path3_affinity \<and> 0 < shape0 path3_affinity"
    by (simp add: path3_affinity_def)
  have sy: "symmetric_graph path3_affinity"
    by code_simp
  have cc: "isolated_connected_components isolated_affinity = Inr (2, [0, 0, 1])"
    by (simp add: isolated_connected_components_def)
  show ?thesis
    using sq sy cc
      graph_is_connected_correct [of path3_affinity isolated_connected_components
        isolated_affinity 2 "[0, 0, 1]"]
    by blast
qed

text \<open>
  On the empty dense matrix the mark of node 0 is written into an array of length 0:
  the call raises IndexError and returns nothing.
\<close>

theorem graph_is_connected_empty_counterexample:
  "graph_is_connected no_connected_components (Dense empty_graph) = Inl IndexError"
  by code_simp

text \<open>A single clique is connected; two cliques with no edge between them are not.\<close>

lemma single_clique_connected:
  "graph_is_connected no_connected_components (Dense clique3) = Inr True"
  by code_simp

lemma two_cliques_not_connected:
  "graph_is_connected no_connected_components (Dense two_cliques) = Inr False"
  by code_simp

section \<open>Arrays: rows, slices and broadcasting\<close>

lemma concat_nth_uniform:
  "\<forall>r\<in>set rs. length r = c \<Longrightarrow> i < length rs \<Longrightarrow> j < c \<Longrightarrow> concat rs ! (i * c + j) = rs ! i ! j"
proof (induction rs arbitrary: i)
  case Nil
  then show ?case by simp
next
  case (Cons r rs)
  show ?case
  proof (cases i)
    case 0
    with Cons.prems show ?thesis by (simp add: nth_append)
  next
    case (Suc i')
    with Cons.prems have "concat rs ! (i' * c + j) = rs ! i' ! j"
      by (intro Cons.IH) auto
    with Suc Cons.prems show ?thesis by (simp add: nth_append)
  qed
qed

lemma map_nth_f: "map (\<lambda>i. f (xs ! i)) [0..<length xs] = map f xs"
  by (rule nth_equalityI) auto

lemma shape_of_rows [simp]: "shape0 (of_rows c rs) = length rs" "shape1 (of_rows c rs) = c"
  by (simp_all add: of_rows_def)

lemma row_of_rows:
  assumes "\<forall>r\<in>set rs. length r = c" "i < length rs"
  shows "row (of_rows c rs) i = rs ! i"
proof (rule nth_equalityI)
  show "length (row (of_rows c rs) i) = length (rs ! i)"
    using assms by (simp add: row_def of_rows_def)
next
  fix j assume "j < length (row (of_rows c rs) i)"
  then have "j < c" by (simp add: row_def of_rows_def)
  then show "row (of_rows c rs) i ! j = rs ! i ! j"
    using assms by (simp add: row_def item_def of_rows_def concat_nth_uniform)
qed

lemma shape_getslice [simp]:
  "shape0 (getslice a start stop step) = length (slice_indices (shape0 a) start stop step)"
  "shape1 (getslice a start stop step) = shape1 a"
  by (simp_all add: getslice_def)

lemma shape_ndarray_T [simp]: "shape0 (ndarray_T a) = shape1 a" "shape1 (ndarray_T a) = shape0 a"
  by (simp_all add: ndarray_T_def)

lemma length_row [simp]: "length (row a i) = shape1 a"
  by (simp add: row_def)

lemma length_column [simp]: "length (column a j) = shape0 a"
  by (simp add: column_def)

lemma row_ndarray_T: "j < shape1 a \<Longrightarrow> row (ndarray_T a) j = column a j"
  unfolding ndarray_T_def by (subst row_of_rows) auto

lemma row_getslice:
  "i < length (slice_indices (shape0 a) start stop step)
   \<Longrightarrow> row (getslice a start stop step) i = row a (slice_indices (shape0 a) start stop step ! i)"
  unfolding getslice_def by (subst row_of_rows) auto

lemma slice_rev_bound: "i \<in> set (slice_indices n (Some k) None (- 1)) \<Longrightarrow> i < n"
  by (auto simp: slice_indices_def adjust_index_def Let_def split: if_splits)

lemma mul_broadcast_rows:
  assumes "shape1 a = length dd"
  shows "mul_broadcast a dd = Inr (of_rows (shape1 a) (map (\<lambda>i. map2 (*) (row a i) dd) [0..<shape0 a]))"
  using assms by (simp add: mul_broadcast_def)

lemma rescale_commutes:
  assumes "shape0 dm = length dd"
  shows "mul_broadcast (getslice (ndarray_T dm) (Some k) None (- 1)) dd
         = Inr (getslice (rescaled_eigenvectors dm dd) (Some k) None (- 1))"
proof -
  let ?idx = "slice_indices (shape1 dm) (Some k) None (- 1)"
  have bound: "\<And>i. i < length ?idx \<Longrightarrow> ?idx ! i < shape1 dm"
    using slice_rev_bound nth_mem by blast
  have l: "map (\<lambda>i. map2 (*) (row (getslice (ndarray_T dm) (Some k) None (- 1)) i) dd) [0..<length ?idx]
        = map (\<lambda>i. map2 (*) (column dm (?idx ! i)) dd) [0..<length ?idx]"
    by (intro map_cong) (auto simp: row_getslice row_ndarray_T bound)
  have r: "map (row (rescaled_eigenvectors dm dd)) ?idx
        = map (\<lambda>j. map2 (*) (column dm j) dd) ?idx"
    unfolding rescaled_eigenvectors_def
    by (intro map_cong refl, subst row_of_rows) (auto simp: assms dest: slice_rev_bound)
  have "map (\<lambda>i. map2 (*) (column dm (?idx ! i)) dd) [0..<length ?idx]
        = map (\<lambda>j. map2 (*) (column dm j) dd) ?idx"
    by (rule map_nth_f)
  with l r have "map (\<lambda>i. map2 (*) (row (getslice (ndarray_T dm) (Some k) None (- 1)) i) dd) [0..<length ?idx]
        = map (row (rescaled_eigenvectors dm dd)) ?idx" by simp
  moreover have "shape1 (rescaled_eigenvectors dm dd) = shape0 dm" "shape0 (rescaled_eigenvectors dm dd) = shape1 dm"
    by (simp_all add: rescaled_eigenvectors_def)
  ultimately show ?thesis
    using assms by (simp add: mul_broadcast_rows getslice_def)
qed


lemma length_slice_rev:
  "0 \<le> k \<Longrightarrow> length (slice_indices n (Some k) None (- 1)) = min (nat k + 1) n"
  by (auto simp: slice_indices_def adjust_index_def Let_def)

lemma length_slice_upto:
  "0 \<le> k \<Longrightarrow> length (slice_indices n None (Some k) 1) = min (nat k) n"
  by (auto simp: slice_indices_def adjust_index_def Let_def)

lemma length_slice_from1:
  "0 \<le> k \<Longrightarrow> length (slice_indices n (Some 1) (Some k) 1) = min (nat k) n - 1"
  by (auto simp: slice_indices_def adjust_index_def Let_def)

lemma spectral_embedding_steps:
  assumes "check_random_state random_state = Inr rs"
      and "get_affinity_matrix G = Inr A"
      and "graph_is_connected cc A = Inr b"
      and "get_laplacian_matrix G = Inr L"
  shows "spectral_embedding cc eig (GeometryObj G) k solver random_state tol drop_first =
     (let called = (if b then [] else [Warning not_connected_warning])
                   @ [EigenCall L k solver rs tol drop_first] in
      case eig L k solver rs tol drop_first of
        Inl e \<Rightarrow> (called, Inl e)
      | Inr (lambdas, diffusion_map) \<Rightarrow>
          (case mul_broadcast (getslice (ndarray_T diffusion_map) (Some k) None (- 1)) (diagonal L) of
             Inl e \<Rightarrow> (called, Inl e)
           | Inr embedding \<Rightarrow>
               if drop_first then (called, Inr (ndarray_T (getslice embedding (Some 1) (Some k) 1)))
               else (called, Inr (ndarray_T (getslice embedding None (Some k) 1)))))"
  using assms by (simp add: spectral_embedding_def Let_def)

lemma spectral_embedding_result:
  assumes "check_random_state random_state = Inr rs"
      and "get_affinity_matrix G = Inr A"
      and "graph_is_connected cc A = Inr b"
      and "get_laplacian_matrix G = Inr L"
      and "eig L k solver rs tol drop_first = Inr (lambdas, dm)"
      and "shape0 dm = length (diagonal L)"
  shows "spectral_embedding cc eig (GeometryObj G) k solver random_state tol drop_first =
     ((if b then [] else [Warning not_connected_warning]) @ [EigenCall L k solver rs tol drop_first],
      Inr (ndarray_T (getslice (getslice (rescaled_eigenvectors dm (diagonal L)) (Some k) None (- 1))
                        (if drop_first then Some 1 else None) (Some k) 1)))"
  using assms(5) rescale_commutes[OF assms(6), of k]
  by (simp add: spectral_embedding_steps[OF assms(1-4)] Let_def)

section \<open>The pipeline on the path graph and on the split graph\<close>

lemma path3_steps:
  "check_random_state SeedNone = Inr GlobalRandomState"
  "get_affinity_matrix path3_geometry = Inr (Dense path3_affinity)"
  "graph_is_connected no_connected_components (Dense path3_affinity) = Inr True"
  "get_laplacian_matrix path3_geometry = Inr (Dense path3_laplacian)"
  by (simp add: check_random_state_def, simp add: path3_geometry_def, code_simp,
      simp add: path3_geometry_def)

lemma split3_steps:
  "get_affinity_matrix split3_geometry = Inr (Dense split3_affinity)"
  "graph_is_connected no_connected_components (Dense split3_affinity) = Inr False"
  "get_laplacian_matrix split3_geometry = Inr (Dense split3_laplacian)"
  by (simp add: split3_geometry_def, code_simp, simp add: split3_geometry_def)

text \<open>
  Claim C1. The claim gives the embedding \<open>N\<close> rows and \<open>k\<close> columns, also with
  \<open>drop_first\<close>. On the path graph (\<open>N = 3\<close>) with \<open>k = 2\<close> and \<open>drop_first\<close> set,
  the dispatcher delivers \<open>k + 1 = 3\<close> eigenvectors and the embedding that comes back has
  3 rows and 1 column: the slice \<open>[1:n_components]\<close> keeps \<open>k - 1\<close> rows.
\<close>

theorem drop_first_loses_a_column:
  "map_sum id (\<lambda>E. (shape0 E, shape1 E))
     (snd (spectral_embedding no_connected_components path3_eigen_decomposition
             (GeometryObj path3_geometry) 2 None SeedNone 0 True)) = Inr (3, 1)"
  by code_simp

text \<open>
  Claim C2. The claim has \<open>drop_first\<close> discard the eigenvector of the smallest
  eigenvalue and keep the next \<open>k\<close>. On the path graph with \<open>k = 2\<close> the dispatcher
  delivers the eigenvectors of the eigenvalues 0, 1, 3 in this order, and the embedding
  is the single eigenvector of eigenvalue 1, rescaled: the one of eigenvalue 3 is
  discarded as well as the constant one.
\<close>

theorem drop_first_discards_two:
  "path3_eigen_decomposition (Dense path3_laplacian) 2 None GlobalRandomState 0 True
     = Inr (path3_lambdas, path3_eigenvectors)
   \<and> snd (spectral_embedding no_connected_components path3_eigen_decomposition
             (GeometryObj path3_geometry) 2 None SeedNone 0 True)
     = Inr (ndarray_T (of_rows 3
              [map2 (*) (column path3_eigenvectors 1) (diagonal (Dense path3_laplacian))]))"
  by code_simp

text \<open>
  Claim C3, as amended. Once the seed is accepted, the Geometry accessors have answered
  and the connectivity check has returned, \<open>spectral_embedding\<close> calls the dispatcher
  exactly once, and passes it the requested dimension \<open>k\<close> unchanged together with the
  \<open>drop_first\<close> flag, whether the flag is set or not.
\<close>

theorem dispatcher_request:
  assumes "check_random_state random_state = Inr rs"
      and "get_affinity_matrix G = Inr A"
      and "graph_is_connected cc A = Inr b"
      and "get_laplacian_matrix G = Inr L"
  shows "fst (spectral_embedding cc eig (GeometryObj G) k solver random_state tol drop_first)
           = (if b then [] else [Warning not_connected_warning]) @ [EigenCall L k solver rs tol drop_first]
       \<and> requested_eigenpairs
           (fst (spectral_embedding cc eig (GeometryObj G) k solver random_state tol drop_first)) = [k]"
  by (simp add: spectral_embedding_steps[OF assms] Let_def split: sum.splits prod.splits)

theorem dispatcher_request_witness:
  "check_random_state SeedNone = Inr GlobalRandomState
   \<and> get_affinity_matrix path3_geometry = Inr (Dense path3_affinity)
   \<and> graph_is_connected no_connected_components (Dense path3_affinity) = Inr True
   \<and> get_laplacian_matrix path3_geometry = Inr (Dense path3_laplacian)
   \<and> fst (spectral_embedding no_connected_components path3_eigen_decomposition
             (GeometryObj path3_geometry) 2 None SeedNone 0 True)
       = [EigenCall (Dense path3_laplacian) 2 None GlobalRandomState 0 True]
   \<and> requested_eigenpairs
       (fst (spectral_embedding no_connected_components path3_eigen_decomposition
               (GeometryObj path3_geometry) 2 None SeedNone 0 True)) = [2]"
  using path3_steps
    dispatcher_request [where eig = path3_eigen_decomposition and k = 2 and solver = None
      and tol = 0 and drop_first = True, OF path3_steps]
  by simp

text \<open>
  With \<open>drop_first\<close> set and \<open>k = 2\<close> the dispatcher is asked for 2, not for 3.
\<close>

theorem dispatcher_request_counterexample:
  "requested_eigenpairs
     (fst (spectral_embedding no_connected_components path3_eigen_decomposition
             (GeometryObj path3_geometry) 2 None SeedNone 0 True)) = [2]
   \<and> [2] \<noteq> [2 + (1::int)]"
  by code_simp

text \<open>
  Claim C4. When the dispatcher gives an array of eigenvectors with one row per sample,
  the embedding is what selection and transposition give from the array in which every
  eigenvector of the dispatcher is multiplied, entry by entry, with the same vector: the
  diagonal of the Laplacian that Geometry gave.
\<close>

theorem eigenvectors_rescaled:
  assumes "check_random_state random_state = Inr rs"
      and "get_affinity_matrix G = Inr A"
      and "graph_is_connected cc A = Inr b"
      and "get_laplacian_matrix G = Inr L"
      and "eig L k solver rs tol drop_first = Inr (lambdas, dm)"
      and "shape0 dm = length (diagonal L)"
  shows "snd (spectral_embedding cc eig (GeometryObj G) k solver random_state tol drop_first) =
      Inr (ndarray_T (getslice (getslice (rescaled_eigenvectors dm (diagonal L)) (Some k) None (- 1))
                        (if drop_first then Some 1 else None) (Some k) 1))"
  by (simp add: spectral_embedding_result[where eig=eig, OF assms])

theorem eigenvectors_rescaled_witness:
  "check_random_state SeedNone = Inr GlobalRandomState
   \<and> get_affinity_matrix path3_geometry = Inr (Dense path3_affinity)
   \<and> graph_is_connected no_connected_components (Dense path3_affinity) = Inr True
   \<and> get_laplacian_matrix path3_geometry = Inr (Dense path3_laplacian)
   \<and> path3_eigen_decomposition (Dense path3_laplacian) 2 None GlobalRandomState 0 False
       = Inr ([0, 1], \<lparr>shape0 = 3, shape1 = 2, flat = [1, 1, 1, 0, 1, - 1]\<rparr>)
   \<and> shape0 \<lparr>shape0 = 3, shape1 = 2, flat = [1, 1, 1, 0, 1, - 1 :: int]\<rparr>
       = length (diagonal (Dense path3_laplacian))
   \<and> snd (spectral_embedding no_connected_components path3_eigen_decomposition
             (GeometryObj path3_geometry) 2 None SeedNone 0 False)
       = Inr (ndarray_T (getslice (getslice
           (rescaled_eigenvectors \<lparr>shape0 = 3, shape1 = 2, flat = [1, 1, 1, 0, 1, - 1]\<rparr>
              (diagonal (Dense path3_laplacian))) (Some 2) None (- 1)) None (Some 2) 1))"
proof -
  have e: "path3_eigen_decomposition (Dense path3_laplacian) 2 None GlobalRandomState 0 False
       = Inr ([0, 1], \<lparr>shape0 = 3, shape1 = 2, flat = [1, 1, 1, 0, 1, - 1]\<rparr>)"
    by code_simp
  have s: "shape0 \<lparr>shape0 = 3, shape1 = 2, flat = [1, 1, 1, 0, 1, - 1 :: int]\<rparr>
       = length (diagonal (Dense path3_laplacian))"
    by code_simp
  show ?thesis
    using path3_steps e s
      eigenvectors_rescaled [where eig = path3_eigen_decomposition, OF path3_steps e s]
    by simp
qed

text \<open>
  Claim C8. When a call succeeds on a Geometry whose affinity matrix fails the
  connectivity check, the one warning is the first thing it leaves behind, nothing else
  it leaves is a warning, and the same call on the same Geometry with an affinity matrix
  that passes the check makes the same dispatcher call and returns the same embedding.
\<close>

theorem disconnected_only_warns:
  assumes "spectral_embedding cc eig (GeometryObj G) k solver random_state tol drop_first = (evs, Inr E)"
      and "get_affinity_matrix G = Inr A"
      and "graph_is_connected cc A = Inr False"
      and "graph_is_connected cc A' = Inr True"
  shows "evs = Warning not_connected_warning # tl evs
       \<and> warnings_of (tl evs) = []
       \<and> spectral_embedding cc eig (GeometryObj (G\<lparr>get_affinity_matrix := Inr A'\<rparr>)) k solver
            random_state tol drop_first = (tl evs, Inr E)"
  using assms
  by (auto simp: spectral_embedding_def Let_def split: sum.splits prod.splits if_splits)

theorem disconnected_only_warns_witness:
  "spectral_embedding no_connected_components split3_eigen_decomposition
     (GeometryObj split3_geometry) 2 None SeedNone 0 False
     = ([Warning not_connected_warning,
         EigenCall (Dense split3_laplacian) 2 None GlobalRandomState 0 False],
        Inr \<lparr>shape0 = 3, shape1 = 2, flat = [0, 1, 0, 1, 0, 0]\<rparr>)
   \<and> get_affinity_matrix split3_geometry = Inr (Dense split3_affinity)
   \<and> graph_is_connected no_connected_components (Dense split3_affinity) = Inr False
   \<and> graph_is_connected no_connected_components (Dense path3_affinity) = Inr True
   \<and> spectral_embedding no_connected_components split3_eigen_decomposition
       (GeometryObj (split3_geometry\<lparr>get_affinity_matrix := Inr (Dense path3_affinity)\<rparr>))
       2 None SeedNone 0 False
     = ([EigenCall (Dense split3_laplacian) 2 None GlobalRandomState 0 False],
        Inr \<lparr>shape0 = 3, shape1 = 2, flat = [0, 1, 0, 1, 0, 0]\<rparr>)"
proof -
  have r: "spectral_embedding no_connected_components split3_eigen_decomposition
     (GeometryObj split3_geometry) 2 None SeedNone 0 False
     = ([Warning not_connected_warning,
         EigenCall (Dense split3_laplacian) 2 None GlobalRandomState 0 False],
        Inr \<lparr>shape0 = 3, shape1 = 2, flat = [0, 1, 0, 1, 0, 0]\<rparr>)"
    by code_simp
  show ?thesis
    using r split3_steps path3_steps(3)
      disconnected_only_warns [OF r split3_steps(1) split3_steps(2) path3_steps(3)]
    by simp
qed

text \<open>
  What comes back for an arbitrary dispatcher: its exception unchanged when it raises,
  and otherwise, for eigenvectors with one row per sample and a \<open>k\<close> that is not
  negative, an array with one row per sample and \<open>min k m\<close> columns, one fewer with
  \<open>drop_first\<close>, where \<open>m\<close> is the number of eigenvectors the dispatcher gave.
\<close>

lemma spectral_embedding_shape:
  assumes "check_random_state random_state = Inr rs"
      and "get_affinity_matrix G = Inr A"
      and "graph_is_connected cc A = Inr b"
      and "get_laplacian_matrix G = Inr L"
  shows "(\<forall>e. eig L k solver rs tol drop_first = Inl e \<longrightarrow>
            snd (spectral_embedding cc eig (GeometryObj G) k solver random_state tol drop_first) = Inl e)
       \<and> (\<forall>lambdas dm. eig L k solver rs tol drop_first = Inr (lambdas, dm)
              \<longrightarrow> shape0 dm = length (diagonal L) \<longrightarrow> 0 \<le> k \<longrightarrow>
            (\<exists>E. snd (spectral_embedding cc eig (GeometryObj G) k solver random_state tol drop_first) = Inr E
                \<and> shape0 E = shape0 dm
                \<and> shape1 E = (if drop_first then min (nat k) (shape1 dm) - 1 else min (nat k) (shape1 dm))))"
proof (intro conjI allI impI)
  fix e assume "eig L k solver rs tol drop_first = Inl e"
  then show "snd (spectral_embedding cc eig (GeometryObj G) k solver random_state tol drop_first) = Inl e"
    by (simp add: spectral_embedding_steps[OF assms] Let_def)
next
  fix lambdas dm
  assume e: "eig L k solver rs tol drop_first = Inr (lambdas, dm)"
     and s: "shape0 dm = length (diagonal L)" and k: "0 \<le> k"
  have sh: "shape0 (rescaled_eigenvectors dm (diagonal L)) = shape1 dm"
           "shape1 (rescaled_eigenvectors dm (diagonal L)) = shape0 dm"
    by (simp_all add: rescaled_eigenvectors_def)
  show "\<exists>E. snd (spectral_embedding cc eig (GeometryObj G) k solver random_state tol drop_first) = Inr E
          \<and> shape0 E = shape0 dm
          \<and> shape1 E = (if drop_first then min (nat k) (shape1 dm) - 1 else min (nat k) (shape1 dm))"
    using k by (auto simp: spectral_embedding_result[where eig=eig, OF assms e s] sh
                  length_slice_rev length_slice_upto length_slice_from1)
qed

text \<open>
  Claim C9. With the dispatcher of the specification, whatever its numerical solver: a
  call on a Geometry whose Laplacian has \<open>N\<close> rows with \<open>k \<ge> N\<close> never returns an
  embedding; and once the seed is accepted, the affinity accessor has answered and the
  connectivity check has returned, the call makes its one dispatcher call and fails
  with ConfigurationError.
\<close>

theorem large_k_is_configuration_error:
  assumes "get_laplacian_matrix G = Inr L"
      and "int (n_samples L) \<le> k"
  shows "isl (snd (spectral_embedding cc (eigen_decomposition solve) (GeometryObj G) k solver
                     random_state tol drop_first))
       \<and> (check_random_state random_state = Inr rs \<longrightarrow> get_affinity_matrix G = Inr A
            \<longrightarrow> graph_is_connected cc A = Inr b \<longrightarrow>
          spectral_embedding cc (eigen_decomposition solve) (GeometryObj G) k solver
            random_state tol drop_first
          = ((if b then [] else [Warning not_connected_warning])
               @ [EigenCall L k solver rs tol drop_first],
             Inl ConfigurationError))"
proof (intro conjI impI)
  have e: "eigen_decomposition solve L k solver r tol drop_first = Inl ConfigurationError" for r
    using assms(2) by (simp add: eigen_decomposition_def)
  show "isl (snd (spectral_embedding cc (eigen_decomposition solve) (GeometryObj G) k solver
                     random_state tol drop_first))"
    using assms(1) e by (simp add: spectral_embedding_def Let_def split: sum.splits)
  assume "check_random_state random_state = Inr rs" "get_affinity_matrix G = Inr A"
    "graph_is_connected cc A = Inr b"
  then show "spectral_embedding cc (eigen_decomposition solve) (GeometryObj G) k solver
            random_state tol drop_first
          = ((if b then [] else [Warning not_connected_warning])
               @ [EigenCall L k solver rs tol drop_first],
             Inl ConfigurationError)"
    using assms(1) e by (simp add: spectral_embedding_def Let_def)
qed

theorem large_k_is_configuration_error_witness:
  "get_laplacian_matrix path3_geometry = Inr (Dense path3_laplacian)
   \<and> int (n_samples (Dense path3_laplacian)) \<le> 5
   \<and> check_random_state SeedNone = Inr GlobalRandomState
   \<and> get_affinity_matrix path3_geometry = Inr (Dense path3_affinity)
   \<and> graph_is_connected no_connected_components (Dense path3_affinity) = Inr True
   \<and> isl (snd (spectral_embedding no_connected_components
                 (eigen_decomposition failing_eigen_decomposition)
                 (GeometryObj path3_geometry) 5 None SeedNone 0 False))
   \<and> spectral_embedding no_connected_components (eigen_decomposition failing_eigen_decomposition)
        (GeometryObj path3_geometry) 5 None SeedNone 0 False
      = ([EigenCall (Dense path3_laplacian) 5 None GlobalRandomState 0 False],
         Inl ConfigurationError)"
proof -
  have n: "int (n_samples (Dense path3_laplacian)) \<le> 5"
    by (simp add: n_samples_def path3_laplacian_def)
  show ?thesis
    using path3_steps n
      large_k_is_configuration_error [OF path3_steps(4) n, of no_connected_components
        failing_eigen_decomposition None SeedNone 0 False GlobalRandomState
        "Dense path3_affinity" True]
    by simp
qed

section \<open>Conditioning: the diagonal and the layout\<close>

lemma offsets_unchanged:
  "map (\<lambda>(r, c, d). int r - int c) (map (\<lambda>(r, c, d). (r, c, if r = c then v else d)) es)
   = map (\<lambda>(r, c, d). int r - int c) es"
  by (induction es) auto

lemma n_diags_card:
  "n_diags (s\<lparr>sp_layout := l, entries := map (\<lambda>(r, c, d). (r, c, if r = c then v else d)) (entries s)\<rparr>)
   = card ((\<lambda>(r, c, d). int r - int c) ` set (entries s))"
proof -
  let ?f = "\<lambda>(r, c, d). int r - int c"
  let ?g = "\<lambda>(r, c, d). (r, c, if r = c then v else d)"
  have "n_diags (s\<lparr>sp_layout := l, entries := map ?g (entries s)\<rparr>)
        = length (remdups (map ?f (map ?g (entries s))))"
    by (simp add: n_diags_def del: map_map)
  also have "\<dots> = length (remdups (map ?f (entries s)))"
    by (simp only: offsets_unchanged)
  also have "\<dots> = card (?f ` set (entries s))"
    by (simp add: length_remdups_card_conv)
  finally show ?thesis .
qed

lemma length_assign_stride: "length (assign_stride xs step v) = length xs"
proof -
  have "\<And>idx. length (fold (\<lambda>i a. a[i := v]) idx xs) = length xs"
    subgoal for idx by (induction idx arbitrary: xs) auto
    done
  then show ?thesis by (simp add: assign_stride_def)
qed

lemma fold_update_nth:
  "k < length xs \<Longrightarrow> fold (\<lambda>j a. a[j := v]) idx xs ! k = (if k \<in> set idx then v else xs ! k)"
proof (induction idx arbitrary: xs)
  case Nil
  then show ?case by simp
next
  case (Cons a idx)
  have "xs[a := v] ! k = (if k = a then v else xs ! k)"
    using Cons.prems by (cases "a = k") auto
  with Cons show ?case by auto
qed

lemma stride_member:
  assumes "0 < step" "t * step < len"
  shows "t * step \<in> set (slice_indices len None None (int step))"
proof -
  have "int t * int step \<le> int len - 1"
    using assms(2) by (metis of_nat_less_iff of_nat_mult zle_diff1_eq)
  then have "(int t * int step) div int step \<le> (int len - 1) div int step"
    using assms(1) by (intro zdiv_mono1) auto
  then have "int t \<le> (int len - 1) div int step"
    using assms(1) by simp
  then have t: "t < nat ((int len - 1) div int step + 1)" by linarith
  have "t * step = nat (int t * int step)"
    by (simp add: nat_mult_distrib)
  with t assms show ?thesis
    by (auto simp: slice_indices_def Let_def image_iff intro!: bexI[of _ t])
qed

lemma set_diag_dense_diagonal:
  assumes "obj h laplacian = Dense a" "wf_ndarray a" "shape1 a = shape0 a" "i < shape0 a"
  shows "matrix_item (obj (fst (set_diag h laplacian v)) (snd (set_diag h laplacian v))) i i = v"
proof -
  let ?n = "shape0 a"
  have "i * ?n + i \<le> (?n - 1) * ?n + (?n - 1)"
    using assms(4) by (intro add_mono mult_right_mono) auto
  also have "\<dots> < ?n * ?n"
    using assms(4) by (cases ?n) auto
  finally have lt: "i * (?n + 1) < length (flat a)"
    using assms(2,3) by (simp add: wf_ndarray_def)
  then have "i * (?n + 1) \<in> set (slice_indices (length (flat a)) None None (int (?n + 1)))"
    by (intro stride_member) auto
  with lt have "assign_stride (flat a) (?n + 1) v ! (i * (?n + 1)) = v"
    by (simp add: assign_stride_def fold_update_nth)
  then show ?thesis
    using assms(1,3) by (simp add: set_diag_def Let_def matrix_item_def item_def add.commute)
qed

text \<open>
  Claim C6. The claim has every diagonal entry equal to the value after \<open>_set_diag\<close>,
  for sparse input too. The dense path does that (\<open>set_diag_dense_diagonal\<close>). The sparse
  path overwrites the stored diagonal entries only: on the Laplacian of the graph with an
  isolated node, where nothing is stored at (2, 2), the entry is 0 before and after, and
  the diagonal that comes back for the value 1 is 1, 1, 0.
\<close>

theorem set_diag_sparse_hole:
  "sp_item isolated_laplacian 2 2 = 0
   \<and> matrix_item (obj (fst (set_diag isolated_heap 0 1)) (snd (set_diag isolated_heap 0 1))) 2 2 = 0
   \<and> map (\<lambda>i. matrix_item (obj (fst (set_diag isolated_heap 0 1)) (snd (set_diag isolated_heap 0 1))) i i)
        [0, 1, 2] = [1, 1, 0]"
  by code_simp

text \<open>
  Claim C7. For sparse input the matrix that comes back is in DIA layout when the stored
  entries lie on at most 7 distinct diagonals (offsets row - column) and in CSR layout
  otherwise, with the shape of the input. For dense input the reference that comes back
  is the argument's, no object is created, the object it holds is the same dense array
  with the strided assignment done on its flat data (same shape, same length), and no
  other object changes.
\<close>

theorem set_diag_layout:
  "(obj h laplacian = Sparse s \<longrightarrow>
      (\<exists>s'. obj (fst (set_diag h laplacian v)) (snd (set_diag h laplacian v)) = Sparse s'
         \<and> sp_layout s' = (if card ((\<lambda>(r, c, d). int r - int c) ` set (entries s)) \<le> 7
                           then DIA else CSR)
         \<and> sp_shape0 s' = sp_shape0 s \<and> sp_shape1 s' = sp_shape1 s))
   \<and> (obj h laplacian = Dense a \<longrightarrow>
      snd (set_diag h laplacian v) = laplacian
      \<and> next_ref (fst (set_diag h laplacian v)) = next_ref h
      \<and> obj (fst (set_diag h laplacian v)) laplacian
          = Dense (a\<lparr>flat := assign_stride (flat a) (shape0 a + 1) v\<rparr>)
      \<and> length (assign_stride (flat a) (shape0 a + 1) v) = length (flat a)
      \<and> (\<forall>r. r \<noteq> laplacian \<longrightarrow> obj (fst (set_diag h laplacian v)) r = obj h r))"
proof (intro conjI impI)
  assume "obj h laplacian = Sparse s"
  then show "\<exists>s'. obj (fst (set_diag h laplacian v)) (snd (set_diag h laplacian v)) = Sparse s'
         \<and> sp_layout s' = (if card ((\<lambda>(r, c, d). int r - int c) ` set (entries s)) \<le> 7
                           then DIA else CSR)
         \<and> sp_shape0 s' = sp_shape0 s \<and> sp_shape1 s' = sp_shape1 s"
    by (simp add: set_diag_def tocoo_def alloc_def Let_def n_diags_card split: prod.splits)
next
  assume d: "obj h laplacian = Dense a"
  then show "snd (set_diag h laplacian v) = laplacian"
    by (simp add: set_diag_def Let_def)
  from d show "next_ref (fst (set_diag h laplacian v)) = next_ref h"
    by (simp add: set_diag_def Let_def)
  from d show "obj (fst (set_diag h laplacian v)) laplacian
          = Dense (a\<lparr>flat := assign_stride (flat a) (shape0 a + 1) v\<rparr>)"
    by (simp add: set_diag_def Let_def)
  show "length (assign_stride (flat a) (shape0 a + 1) v) = length (flat a)"
    by (rule length_assign_stride)
  from d show "\<forall>r. r \<noteq> laplacian \<longrightarrow> obj (fst (set_diag h laplacian v)) r = obj h r"
    by (simp add: set_diag_def Let_def)
qed

theorem set_diag_layout_witness:
  "obj isolated_heap 0 = Sparse isolated_laplacian
   \<and> (\<exists>s'. obj (fst (set_diag isolated_heap 0 1)) (snd (set_diag isolated_heap 0 1)) = Sparse s'
         \<and> sp_layout s' = DIA \<and> sp_shape0 s' = 3 \<and> sp_shape1 s' = 3)
   \<and> obj wide_heap 0 = Sparse wide_sparse
   \<and> (\<exists>s'. obj (fst (set_diag wide_heap 0 1)) (snd (set_diag wide_heap 0 1)) = Sparse s'
         \<and> sp_layout s' = CSR)
   \<and> obj path3_heap 0 = Dense path3_laplacian
   \<and> snd (set_diag path3_heap 0 1) = 0
   \<and> next_ref (fst (set_diag path3_heap 0 1)) = 1
   \<and> (\<exists>a'. obj (fst (set_diag path3_heap 0 1)) 0 = Dense a' \<and> shape0 a' = 3 \<and> shape1 a' = 3)
   \<and> (3::nat) \<noteq> 0 \<and> obj (fst (set_diag path3_heap 0 1)) 3 = obj path3_heap 3"
proof -
  have i: "obj isolated_heap 0 = Sparse isolated_laplacian" by (simp add: isolated_heap_def)
  have w: "obj wide_heap 0 = Sparse wide_sparse" by (simp add: wide_heap_def)
  have p: "obj path3_heap 0 = Dense path3_laplacian" by (simp add: path3_heap_def)
  have ci: "card ((\<lambda>(r, c, d). int r - int c) ` set (entries isolated_laplacian)) = 3"
    by code_simp
  have cw: "card ((\<lambda>(r, c, d). int r - int c) ` set (entries wide_sparse)) = 8"
    by code_simp
  have si: "sp_shape0 isolated_laplacian = 3" "sp_shape1 isolated_laplacian = 3"
    by (simp_all add: isolated_laplacian_def)
  have sp: "shape0 path3_laplacian = 3" "shape1 path3_laplacian = 3"
    by (simp_all add: path3_laplacian_def)
  from set_diag_layout [of isolated_heap 0 isolated_laplacian 1] i ci si
  have a: "\<exists>s'. obj (fst (set_diag isolated_heap 0 1)) (snd (set_diag isolated_heap 0 1)) = Sparse s'
         \<and> sp_layout s' = DIA \<and> sp_shape0 s' = 3 \<and> sp_shape1 s' = 3"
    by simp
  from set_diag_layout [of wide_heap 0 wide_sparse 1] w cw
  have b: "\<exists>s'. obj (fst (set_diag wide_heap 0 1)) (snd (set_diag wide_heap 0 1)) = Sparse s'
         \<and> sp_layout s' = CSR"
    by auto
  from set_diag_layout [of path3_heap 0 _ 1 path3_laplacian] p sp
  have c: "snd (set_diag path3_heap 0 1) = 0" "next_ref (fst (set_diag path3_heap 0 1)) = 1"
    "\<exists>a'. obj (fst (set_diag path3_heap 0 1)) 0 = Dense a' \<and> shape0 a' = 3 \<and> shape1 a' = 3"
    "obj (fst (set_diag path3_heap 0 1)) 3 = obj path3_heap 3"
    by (auto simp: path3_heap_def)
  show ?thesis using i w p a b c by simp
qed

section \<open>The estimator\<close>

text \<open>
  Claim C10, as amended. For every \<open>X\<close>, \<open>fit\<close> fails before it asks for a Geometry
  object: with NameError, from reading the unbound name \<open>is_affinity\<close>, when
  \<open>check_random_state\<close> accepts the estimator's \<open>random_state\<close>, and with the exception of
  \<open>check_random_state\<close> otherwise. In both cases the estimator is unchanged,
  \<open>embedding_\<close> is not set, and \<open>fit_transform\<close> fails in the same way.
\<close>

theorem fit_raises:
  "(check_random_state (self_random_state self) = Inr rs \<longrightarrow>
      fit cc eig Geometry_init self X = (self, [], Inl NameError)
      \<and> fit_transform cc eig Geometry_init self X = (self, [], Inl NameError))
   \<and> (check_random_state (self_random_state self) = Inl e \<longrightarrow>
      fit cc eig Geometry_init self X = (self, [], Inl e)
      \<and> fit_transform cc eig Geometry_init self X = (self, [], Inl e))"
  by (simp add: fit_def fit_transform_def load_global_def module_globals_def)

theorem fit_raises_witness:
  "check_random_state (self_random_state default_estimator) = Inr GlobalRandomState
   \<and> fit no_connected_components path3_eigen_decomposition path3_Geometry_init
       default_estimator (Dense path3_affinity) = (default_estimator, [], Inl NameError)
   \<and> fit_transform no_connected_components path3_eigen_decomposition path3_Geometry_init
       default_estimator (Dense path3_affinity) = (default_estimator, [], Inl NameError)
   \<and> check_random_state (self_random_state (default_estimator\<lparr>self_random_state := SeedInt (- 1)\<rparr>))
       = Inl ValueError
   \<and> fit no_connected_components path3_eigen_decomposition path3_Geometry_init
       (default_estimator\<lparr>self_random_state := SeedInt (- 1)\<rparr>) (Dense path3_affinity)
       = (default_estimator\<lparr>self_random_state := SeedInt (- 1)\<rparr>, [], Inl ValueError)
   \<and> fit_transform no_connected_components path3_eigen_decomposition path3_Geometry_init
       (default_estimator\<lparr>self_random_state := SeedInt (- 1)\<rparr>) (Dense path3_affinity)
       = (default_estimator\<lparr>self_random_state := SeedInt (- 1)\<rparr>, [], Inl ValueError)"
proof -
  have a: "check_random_state (self_random_state default_estimator) = Inr GlobalRandomState"
    by (simp add: default_estimator_def check_random_state_def)
  have b: "check_random_state (self_random_state (default_estimator\<lparr>self_random_state := SeedInt (- 1)\<rparr>))
       = Inl ValueError"
    by (simp add: check_random_state_def)
  show ?thesis
    using a b
      fit_raises [of default_estimator GlobalRandomState no_connected_components
        path3_eigen_decomposition path3_Geometry_init "Dense path3_affinity"]
      fit_raises [of "default_estimator\<lparr>self_random_state := SeedInt (- 1)\<rparr>" _
        no_connected_components path3_eigen_decomposition path3_Geometry_init
        "Dense path3_affinity" ValueError]
    by simp
qed

text \<open>
  An estimator whose \<open>random_state\<close> is not a seed fails with ValueError, not NameError.
\<close>

theorem fit_raises_counterexample:
  "fit no_connected_components path3_eigen_decomposition path3_Geometry_init
     (default_estimator\<lparr>self_random_state := SeedOther\<rparr>) (Dense path3_affinity)
   = (default_estimator\<lparr>self_random_state := SeedOther\<rparr>, [], Inl ValueError)"
  by code_simp

end
